theory Spec2Isabelle
  imports Main "HOL-Library.Multiset"
begin

section \<open>The reliability layer of services/reliability.ts\<close>

text \<open>
  The class \<open>ReliabilityLayer\<close> queues mutating requests while the device is offline or
  the server fails, and replays them in \<open>syncPendingOperations\<close>. The embedding follows
  the source statement by statement. One call runs to completion before the next one starts
  (the calls are \<open>async\<close>, but JavaScript runs them on one thread; interleavings at the
  \<open>await\<close> points are outside this model, except that a call can start in a state whose
  \<open>syncInProgress\<close> flag is set).
\<close>

subsection \<open>Data\<close>

datatype Method = POST | PUT | DELETE

datatype Priority = high | medium | low

text \<open>
  \<open>interface PendingOperation\<close>. The field \<open>id\<close> is \<open>opId\<close> and \<open>method\<close> is
  \<open>opMethod\<close> here (both names are taken in Isabelle). \<open>timestamp\<close> holds values of
  \<open>Date.now()\<close>, integers; \<open>retryCount\<close> is created as 0 and only ever incremented, a
  natural number. \<open>body: any\<close> is the type variable \<open>'b\<close>.
\<close>

record 'b PendingOperation =
  opId :: string
  endpoint :: string
  opMethod :: Method
  body :: 'b
  timestamp :: int
  retryCount :: nat
  priority :: Priority

definition MAX_RETRY_ATTEMPTS :: nat where
  "MAX_RETRY_ATTEMPTS = 5"

definition RETRY_BACKOFF_MS :: int where
  "RETRY_BACKOFF_MS = 1000"

text \<open>\<open>interface ApiResponse\<close> of services/api.ts: what the transport resolves to.\<close>

record 'd ApiResponse =
  status :: int
  data :: "'d option"
  error :: "string option"

text \<open>
  A thrown value: an \<open>Error\<close> object with its message, or anything else
  (\<open>error instanceof Error\<close> tells them apart).
\<close>

datatype thrown = ErrorObject string | OtherValue

text \<open>The value \<open>performOperation\<close> resolves to; an absent field is \<open>None\<close>.\<close>

record 'd OperationResult =
  success :: bool
  resultData :: "'d option"
  resultError :: "string option"
  queued :: "bool option"

text \<open>The \<open>options\<close> argument of \<open>performOperation\<close>; every field is optional.\<close>

record Options =
  optPriority :: "Priority option"
  optOfflineSupport :: "bool option"
  optSyncTarget :: "string option"

text \<open>One constructor for each \<open>console.log\<close> and \<open>console.error\<close> line of the class.\<close>

datatype console_line =
    FailedToSave thrown
  | QueuedForLater Method string
  | ServerErrorQueued Method string
  | NetworkErrorQueued Method string
  | SyncAlreadyInProgress
  | CannotSyncOffline
  | SkippingSyncTooSoon
  | StartingSync nat
  | ExceededMaxRetries string
  | WaitingForBackoff string int
  | Executing Method string
  | Succeeded string
  | Failed string "string option"
  | ErrorExecuting string thrown
  | SyncCompleted nat nat nat
  | ErrorDuringSync thrown
  | ErrorUpdatingMirror thrown
  | ManualCannotSyncOffline
  | ManualSyncAlreadyInProgress

text \<open>
  The state: the four private fields of the instance, then what the instance shares with
  the rest of the program: the value stored under \<open>PENDING_OPERATIONS_KEY\<close> (the JSON
  text is identified with the list it encodes), every save \<open>savePendingOperations\<close>
  has issued, with the list it carried,
  every request handed to \<open>api\<close>, every document write handed to \<open>firestore\<close>, and the
  console.
\<close>

record ('b, 'd) world =
  isOnline :: bool
  pendingOperations :: "'b PendingOperation list"
  syncInProgress :: bool
  lastSyncAttempt :: int
  storage :: "'b PendingOperation list option"
  setItemCalls :: "'b PendingOperation list list"
  requests :: "(Method \<times> string \<times> 'b option) list"
  firestoreCalls :: "(string \<times> string \<times> 'd) list"
  console :: "console_line list"

text \<open>
  The collaborators, as oracles. \<open>transport n m e b\<close> is what the \<open>n\<close>-th request to
  \<open>api\<close> does: reject with a thrown value or resolve to a response.
  \<open>setItem n ops\<close> and \<open>firestoreSet n\<close> tell whether the \<open>n\<close>-th write rejects
  (for \<open>setItem\<close> also: whether \<open>JSON.stringify\<close> of the list throws).
  \<open>truthy\<close>, \<open>dataId\<close> and \<open>dataEventId\<close> read the response payload (\<open>result.data\<close>
  is truthy; \<open>data.id\<close> is truthy, with its \<open>toString()\<close>; \<open>data.eventId\<close> is truthy).
\<close>

record ('b, 'd) env =
  transport :: "nat \<Rightarrow> Method \<Rightarrow> string \<Rightarrow> 'b option \<Rightarrow> thrown + 'd ApiResponse"
  setItem :: "nat \<Rightarrow> 'b PendingOperation list \<Rightarrow> thrown option"
  firestoreSet :: "nat \<Rightarrow> thrown option"
  truthy :: "'d \<Rightarrow> bool"
  dataId :: "'d \<Rightarrow> string option"
  dataEventId :: "'d \<Rightarrow> string option"

subsection \<open>Programs that may throw\<close>

text \<open>
  A program takes the state to a result and a new state; the result is \<open>Inl\<close> of the
  thrown value when the program throws.
\<close>

type_synonym ('w, 'a) prog = "'w \<Rightarrow> (thrown + 'a) \<times> 'w"

definition returnE :: "'a \<Rightarrow> ('w, 'a) prog" where
  "returnE x = (\<lambda>w. (Inr x, w))"

definition throwE :: "thrown \<Rightarrow> ('w, 'a) prog" where
  "throwE e = (\<lambda>w. (Inl e, w))"

definition bindE :: "('w, 'a) prog \<Rightarrow> ('a \<Rightarrow> ('w, 'b) prog) \<Rightarrow> ('w, 'b) prog" where
  "bindE m f = (\<lambda>w. case m w of (Inl e, w') \<Rightarrow> (Inl e, w') | (Inr x, w') \<Rightarrow> f x w')"

definition tryCatch :: "('w, 'a) prog \<Rightarrow> (thrown \<Rightarrow> ('w, 'a) prog) \<Rightarrow> ('w, 'a) prog" where
  "tryCatch m h = (\<lambda>w. case m w of (Inl e, w') \<Rightarrow> h e w' | (Inr x, w') \<Rightarrow> (Inr x, w'))"

definition tryFinally :: "('w, 'a) prog \<Rightarrow> ('w, unit) prog \<Rightarrow> ('w, 'a) prog" where
  "tryFinally m fin =
     (\<lambda>w. case m w of
        (r, w') \<Rightarrow> (case fin w' of (Inl e, w'') \<Rightarrow> (Inl e, w'') | (Inr _, w'') \<Rightarrow> (r, w'')))"

definition getW :: "('w, 'w) prog" where
  "getW = (\<lambda>w. (Inr w, w))"

definition modifyW :: "('w \<Rightarrow> 'w) \<Rightarrow> ('w, unit) prog" where
  "modifyW f = (\<lambda>w. (Inr (), f w))"

definition consoleLog :: "console_line \<Rightarrow> (('b, 'd) world, unit) prog" where
  "consoleLog l = modifyW (\<lambda>w. w\<lparr>console := console w @ [l]\<rparr>)"

subsection \<open>The collaborators\<close>

definition AsyncStorage_setItem ::
  "('b, 'd) env \<Rightarrow> 'b PendingOperation list \<Rightarrow> (('b, 'd) world, unit) prog" where
  "AsyncStorage_setItem env ops =
     (\<lambda>w. case setItem env (length (setItemCalls w)) ops of
        Some e \<Rightarrow> (Inl e, w\<lparr>setItemCalls := setItemCalls w @ [ops]\<rparr>)
      | None \<Rightarrow> (Inr (), w\<lparr>setItemCalls := setItemCalls w @ [ops], storage := Some ops\<rparr>))"

definition api_request ::
  "('b, 'd) env \<Rightarrow> Method \<Rightarrow> string \<Rightarrow> 'b option \<Rightarrow> (('b, 'd) world, 'd ApiResponse) prog" where
  "api_request env m e b =
     (\<lambda>w. (transport env (length (requests w)) m e b, w\<lparr>requests := requests w @ [(m, e, b)]\<rparr>))"

definition firestore_set ::
  "('b, 'd) env \<Rightarrow> string \<Rightarrow> string \<Rightarrow> 'd \<Rightarrow> (('b, 'd) world, unit) prog" where
  "firestore_set env coll doc d =
     (\<lambda>w. (case firestoreSet env (length (firestoreCalls w)) of Some e \<Rightarrow> Inl e | None \<Rightarrow> Inr (),
           w\<lparr>firestoreCalls := firestoreCalls w @ [(coll, doc, d)]\<rparr>))"

subsection \<open>savePendingOperations\<close>

definition savePendingOperations :: "('b, 'd) env \<Rightarrow> (('b, 'd) world, unit) prog" where
  "savePendingOperations env =
     tryCatch
       (bindE getW (\<lambda>w. AsyncStorage_setItem env (pendingOperations w)))
       (\<lambda>error. consoleLog (FailedToSave error))"

subsection \<open>updateLocalMirror\<close>

definition updateLocalMirror ::
  "('b, 'd) env \<Rightarrow> string \<Rightarrow> 'd \<Rightarrow> (('b, 'd) world, unit) prog" where
  "updateLocalMirror env collectionKey d =
     tryCatch
       (if collectionKey = ''scheduledWorkouts'' \<and> dataId env d \<noteq> None then
          firestore_set env ''scheduledWorkouts'' (the (dataId env d)) d
        else if collectionKey = ''calendar'' \<and> dataEventId env d \<noteq> None then
          firestore_set env ''calendarEvents'' (the (dataEventId env d)) d
        else returnE ())
       (\<lambda>error. consoleLog (ErrorUpdatingMirror error))"

subsection \<open>performOperation\<close>

text \<open>Decimal digits of a number, as a template literal prints it.\<close>

fun digitsOf :: "nat \<Rightarrow> string" where
  "digitsOf n =
     (if n < 10 then [''0123456789'' ! n]
      else digitsOf (n div 10) @ [''0123456789'' ! (n mod 10)])"

definition showInt :: "int \<Rightarrow> string" where
  "showInt i = (if i < 0 then CHR ''-'' # digitsOf (nat (- i)) else digitsOf (nat i))"

fun methodName :: "Method \<Rightarrow> string" where
  "methodName POST = ''POST''"
| "methodName PUT = ''PUT''"
| "methodName DELETE = ''DELETE''"

text \<open>
  \<open>`${method}_${endpoint}_${Date.now()}_${Math.random().toString(36).substr(2, 9)}`\<close>:
  \<open>t\<close> is the clock reading and \<open>r\<close> the random suffix.
\<close>

definition operationId :: "Method \<Rightarrow> string \<Rightarrow> int \<Rightarrow> string \<Rightarrow> string" where
  "operationId m e t r = methodName m @ ''_'' @ e @ ''_'' @ showInt t @ ''_'' @ r"

text \<open>
  The \<open>switch (method)\<close> of lines 140-150 and 266-276: \<open>api.delete\<close> is called without
  the body.
\<close>

fun api_call ::
  "('b, 'd) env \<Rightarrow> Method \<Rightarrow> string \<Rightarrow> 'b \<Rightarrow> (('b, 'd) world, 'd ApiResponse) prog" where
  "api_call env POST e b = api_request env POST e (Some b)"
| "api_call env PUT e b = api_request env PUT e (Some b)"
| "api_call env DELETE e b = api_request env DELETE e None"

definition isSuccessStatus :: "'d ApiResponse \<Rightarrow> bool" where
  "isSuccessStatus result = (200 \<le> status result \<and> status result < 300)"

text \<open>
  The three places that build a \<open>PendingOperation\<close>, push it and save (lines 120-131,
  162-173 and 182-193) differ only in the line they log.
\<close>

definition enqueue ::
  "('b, 'd) env \<Rightarrow> 'b PendingOperation \<Rightarrow> console_line \<Rightarrow> (('b, 'd) world, unit) prog" where
  "enqueue env pendingOperation line =
     bindE (modifyW (\<lambda>w. w\<lparr>pendingOperations := pendingOperations w @ [pendingOperation]\<rparr>)) (\<lambda>_.
     bindE (savePendingOperations env) (\<lambda>_.
     consoleLog line))"

text \<open>
  \<open>performOperation env tId rnd tEnq endpoint method body options\<close>: \<open>tId\<close> is the value
  of \<open>Date.now()\<close> on line 116, \<open>rnd\<close> the random suffix of that line, and \<open>tEnq\<close> the
  value of \<open>Date.now()\<close> where the operation is queued (line 125, 167 or 187; at most
  one of them runs).
\<close>

definition performOperation ::
  "('b, 'd) env \<Rightarrow> int \<Rightarrow> string \<Rightarrow> int \<Rightarrow> string \<Rightarrow> Method \<Rightarrow> 'b \<Rightarrow> Options \<Rightarrow>
   (('b, 'd) world, 'd OperationResult) prog" where
  "performOperation env tId rnd tEnq ep m b options =
     (let prio = (case optPriority options of None \<Rightarrow> medium | Some p \<Rightarrow> p);
          offlineSupport = (case optOfflineSupport options of None \<Rightarrow> True | Some s \<Rightarrow> s);
          syncTarget = optSyncTarget options;
          pendingOperation =
            \<lparr>opId = operationId m ep tId rnd, endpoint = ep, opMethod = m, body = b,
             timestamp = tEnq, retryCount = 0, priority = prio\<rparr>
      in
      bindE getW (\<lambda>w.
      if \<not> isOnline w \<and> offlineSupport then
        bindE (enqueue env pendingOperation (QueuedForLater m ep)) (\<lambda>_.
        returnE \<lparr>success = False, resultData = None, resultError = None, queued = Some True\<rparr>)
      else
        tryCatch
          (bindE (api_call env m ep b) (\<lambda>result.
           if isSuccessStatus result then
             bindE
               (case (syncTarget, data result) of
                  (Some target, Some d) \<Rightarrow>
                    if target \<noteq> [] \<and> truthy env d then updateLocalMirror env target d
                    else returnE ()
                | _ \<Rightarrow> returnE ())
               (\<lambda>_. returnE
                  \<lparr>success = True, resultData = data result, resultError = None, queued = None\<rparr>)
           else
             bindE
               (if offlineSupport then enqueue env pendingOperation (ServerErrorQueued m ep)
                else returnE ())
               (\<lambda>_. returnE
                  \<lparr>success = False, resultData = None,
                   resultError =
                     Some (case error result of
                             None \<Rightarrow> ''Server error''
                           | Some msg \<Rightarrow> if msg = [] then ''Server error'' else msg),
                   queued = None\<rparr>)))
          (\<lambda>err.
             bindE
               (if offlineSupport then enqueue env pendingOperation (NetworkErrorQueued m ep)
                else returnE ())
               (\<lambda>_. returnE
                  \<lparr>success = False, resultData = None,
                   resultError =
                     Some (case err of ErrorObject msg \<Rightarrow> msg | OtherValue \<Rightarrow> ''Network error''),
                   queued = None\<rparr>))))"

subsection \<open>syncPendingOperations\<close>

fun priorityOrder :: "Priority \<Rightarrow> int" where
  "priorityOrder high = 0"
| "priorityOrder medium = 1"
| "priorityOrder low = 2"

text \<open>The comparator handed to \<open>sort\<close> (lines 232-238).\<close>

definition compareOps :: "'b PendingOperation \<Rightarrow> 'b PendingOperation \<Rightarrow> int" where
  "compareOps a b =
     (if priorityOrder (priority a) \<noteq> priorityOrder (priority b)
      then priorityOrder (priority a) - priorityOrder (priority b)
      else timestamp a - timestamp b)"

text \<open>
  \<open>Array.prototype.sort\<close> is stable: elements the comparator does not separate keep their
  order. Insertion from the right gives that result.
\<close>

fun insertOp :: "'b PendingOperation \<Rightarrow> 'b PendingOperation list \<Rightarrow> 'b PendingOperation list" where
  "insertOp a [] = [a]"
| "insertOp a (b # bs) = (if compareOps a b \<le> 0 then a # b # bs else b # insertOp a bs)"

definition sortOps :: "'b PendingOperation list \<Rightarrow> 'b PendingOperation list" where
  "sortOps xs = foldr insertOp xs []"

text \<open>
  Lines 285-291 and 297-303: the failed attempt updates the operation and, at the ceiling,
  pushes its id on \<open>failedOperations\<close>.
\<close>

definition markRetry ::
  "int \<Rightarrow> 'b PendingOperation \<Rightarrow> string list \<Rightarrow> string list \<Rightarrow>
   'b PendingOperation \<times> string list \<times> string list" where
  "markRetry now operation successfulOperations failedOperations =
     (let operation' = operation\<lparr>retryCount := retryCount operation + 1, timestamp := now\<rparr>
      in (operation', successfulOperations,
          if retryCount operation' \<ge> MAX_RETRY_ATTEMPTS
          then failedOperations @ [opId operation'] else failedOperations))"

text \<open>
  One iteration of the loop of lines 245-308. It returns the operation as the iteration
  leaves it, with the two lists of ids. The pause of 100 ms that ends an iteration with an
  attempt (line 307) changes nothing in the state and is left out.
\<close>

definition processOperation ::
  "('b, 'd) env \<Rightarrow> int \<Rightarrow> 'b PendingOperation \<Rightarrow> string list \<Rightarrow> string list \<Rightarrow>
   (('b, 'd) world, 'b PendingOperation \<times> string list \<times> string list) prog" where
  "processOperation env now operation successfulOperations failedOperations =
     (let backoffDelay = RETRY_BACKOFF_MS * 2 ^ retryCount operation in
      if retryCount operation \<ge> MAX_RETRY_ATTEMPTS then
        bindE (consoleLog (ExceededMaxRetries (opId operation))) (\<lambda>_.
        returnE (operation, successfulOperations, failedOperations @ [opId operation]))
      else if retryCount operation > 0 \<and> now - timestamp operation < backoffDelay then
        bindE (consoleLog (WaitingForBackoff (opId operation) backoffDelay)) (\<lambda>_.
        returnE (operation, successfulOperations, failedOperations))
      else
        tryCatch
          (bindE (consoleLog (Executing (opMethod operation) (endpoint operation))) (\<lambda>_.
           bindE (api_call env (opMethod operation) (endpoint operation) (body operation)) (\<lambda>result.
           if isSuccessStatus result then
             bindE (consoleLog (Succeeded (opId operation))) (\<lambda>_.
             returnE (operation, successfulOperations @ [opId operation], failedOperations))
           else
             bindE (consoleLog (Failed (opId operation) (error result))) (\<lambda>_.
             returnE (markRetry now operation successfulOperations failedOperations)))))
          (\<lambda>err.
             bindE (consoleLog (ErrorExecuting (opId operation) err)) (\<lambda>_.
             returnE (markRetry now operation successfulOperations failedOperations))))"

text \<open>
  The loop over \<open>operationsToProcess\<close>. The copy \<open>[...this.pendingOperations]\<close> holds the
  same objects as the queue, so the updates of an iteration are updates of the queue's
  elements: the loop returns the elements as it leaves them, in the queue's order.
\<close>

fun processOperations ::
  "('b, 'd) env \<Rightarrow> int \<Rightarrow> 'b PendingOperation list \<Rightarrow> string list \<Rightarrow> string list \<Rightarrow>
   (('b, 'd) world, 'b PendingOperation list \<times> string list \<times> string list) prog" where
  "processOperations env now [] successfulOperations failedOperations =
     returnE ([], successfulOperations, failedOperations)"
| "processOperations env now (operation # rest) successfulOperations failedOperations =
     bindE (processOperation env now operation successfulOperations failedOperations)
       (\<lambda>(operation', successfulOperations', failedOperations').
     bindE (processOperations env now rest successfulOperations' failedOperations')
       (\<lambda>(rest', successfulOperations'', failedOperations'').
     returnE (operation' # rest', successfulOperations'', failedOperations'')))"

text \<open>The body of the \<open>try\<close> of lines 228-318.\<close>

definition drain :: "('b, 'd) env \<Rightarrow> int \<Rightarrow> (('b, 'd) world, unit) prog" where
  "drain env now =
     bindE getW (\<lambda>w0.
     bindE (consoleLog (StartingSync (length (pendingOperations w0)))) (\<lambda>_.
     bindE (modifyW (\<lambda>w. w\<lparr>pendingOperations := sortOps (pendingOperations w)\<rparr>)) (\<lambda>_.
     bindE getW (\<lambda>w1.
     bindE (processOperations env now (pendingOperations w1) [] [])
       (\<lambda>(processed, successfulOperations, failedOperations).
     bindE (modifyW (\<lambda>w. w\<lparr>pendingOperations :=
              filter (\<lambda>op. opId op \<notin> set successfulOperations \<and> opId op \<notin> set failedOperations)
                processed\<rparr>)) (\<lambda>_.
     bindE (savePendingOperations env) (\<lambda>_.
     bindE getW (\<lambda>w2.
     consoleLog (SyncCompleted (length successfulOperations) (length failedOperations)
                   (length (pendingOperations w2)))))))))))"

text \<open>\<open>syncPendingOperations env now\<close>: \<open>now\<close> is the value of \<open>Date.now()\<close> on line 219.\<close>

definition syncPendingOperations :: "('b, 'd) env \<Rightarrow> int \<Rightarrow> (('b, 'd) world, unit) prog" where
  "syncPendingOperations env now =
     bindE getW (\<lambda>w.
     if syncInProgress w then consoleLog SyncAlreadyInProgress
     else if \<not> isOnline w then consoleLog CannotSyncOffline
     else if now - lastSyncAttempt w < 5000 then consoleLog SkippingSyncTooSoon
     else
       bindE (modifyW (\<lambda>w. w\<lparr>syncInProgress := True, lastSyncAttempt := now\<rparr>)) (\<lambda>_.
       tryFinally
         (tryCatch (drain env now) (\<lambda>error. consoleLog (ErrorDuringSync error)))
         (modifyW (\<lambda>w. w\<lparr>syncInProgress := False\<rparr>))))"

subsection \<open>manualSync\<close>

definition manualSync :: "('b, 'd) env \<Rightarrow> int \<Rightarrow> (('b, 'd) world, bool) prog" where
  "manualSync env now =
     bindE getW (\<lambda>w.
     if \<not> isOnline w then bindE (consoleLog ManualCannotSyncOffline) (\<lambda>_. returnE False)
     else if syncInProgress w then
       bindE (consoleLog ManualSyncAlreadyInProgress) (\<lambda>_. returnE False)
     else bindE (syncPendingOperations env now) (\<lambda>_. returnE True))"

subsection \<open>Concrete collaborators and states\<close>

text \<open>
  Concrete collaborators and states, with natural numbers for the payloads: a server that
  answers 200, a server that answers 500, a store whose writes reject, and the state of a
  fresh instance with nothing stored.
\<close>

definition envOk :: "(nat, nat) env" where
  "envOk =
     \<lparr>transport = (\<lambda>n m e b. Inr \<lparr>status = 200, data = Some 7, error = None\<rparr>),
      setItem = (\<lambda>n ops. None), firestoreSet = (\<lambda>n. None),
      truthy = (\<lambda>d. d \<noteq> 0), dataId = (\<lambda>d. Some ''7''), dataEventId = (\<lambda>d. None)\<rparr>"

definition envDown :: "(nat, nat) env" where
  "envDown = envOk\<lparr>transport := (\<lambda>n m e b. Inr \<lparr>status = 500, data = None, error = Some ''down''\<rparr>)\<rparr>"


text \<open>Collaborators that all fail: the transport throws and every write rejects.\<close>

definition envBroken :: "(nat, nat) env" where
  "envBroken =
     envOk\<lparr>transport := (\<lambda>n m e b. Inl OtherValue),
       setItem := (\<lambda>n ops. Some (ErrorObject ''quota exceeded'')),
       firestoreSet := (\<lambda>n. Some OtherValue)\<rparr>"

definition world0 :: "(nat, nat) world" where
  "world0 =
     \<lparr>isOnline = True, pendingOperations = [], syncInProgress = False, lastSyncAttempt = 0,
      storage = None, setItemCalls = [], requests = [], firestoreCalls = [], console = []\<rparr>"

definition noOptions :: Options where
  "noOptions = \<lparr>optPriority = None, optOfflineSupport = None, optSyncTarget = None\<rparr>"

definition opA :: "nat PendingOperation" where
  "opA = \<lparr>opId = ''POST_/api/workouts/schedule_1000_k3j'', endpoint = ''/api/workouts/schedule'',
          opMethod = POST, body = 4, timestamp = 1001, retryCount = 0, priority = medium\<rparr>"





text \<open>
  Three operations queued while offline with priorities low, high, medium in that order,
  then the device is online again.
\<close>

definition lowHighMedium :: "(nat, nat) world" where
  "lowHighMedium =
     (snd (performOperation envOk 1003 ''c9'' 1003 ''/api/workouts/3'' PUT 3
        (noOptions\<lparr>optPriority := Some medium\<rparr>)
     (snd (performOperation envOk 1002 ''b7'' 1002 ''/api/calendar/events'' POST 2
        (noOptions\<lparr>optPriority := Some high\<rparr>)
     (snd (performOperation envOk 1001 ''a5'' 1001 ''/api/workouts/1/cancel'' DELETE 5
        (noOptions\<lparr>optPriority := Some low\<rparr>)
        (world0\<lparr>isOnline := False\<rparr>)))))))\<lparr>isOnline := True\<rparr>"

subsection \<open>Notions the claims use\<close>

text \<open>
  The order of the specification: priority first (high before medium before low) and,
  within equal priority, ascending timestamp.
\<close>

definition precedes :: "'b PendingOperation \<Rightarrow> 'b PendingOperation \<Rightarrow> bool" where
  "precedes a b =
     (priorityOrder (priority a) < priorityOrder (priority b) \<or>
      (priority a = priority b \<and> timestamp a \<le> timestamp b))"

text \<open>
  A call leaves the queue written through when it either left the queue as it was and
  issued no save, or its last act on the store was one save of the whole queue as the
  call leaves it.
\<close>

definition writtenThrough :: "('b, 'd) world \<Rightarrow> ('b, 'd) world \<Rightarrow> bool" where
  "writtenThrough w w' =
     ((pendingOperations w' = pendingOperations w \<and> setItemCalls w' = setItemCalls w) \<or>
      setItemCalls w' = setItemCalls w @ [pendingOperations w'])"

text \<open>
  The console records every attempt of a pass under the id of its operation: one of the
  lines \<open>succeeded\<close>, \<open>failed\<close> (an answer outside [200,300)) and \<open>Error executing\<close>
  (the transport threw) follows each request. \<open>attemptsOf\<close> counts the attempts made for
  an id and \<open>successesOf\<close> the successes reported for it.
\<close>

fun isAttemptOf :: "string \<Rightarrow> console_line \<Rightarrow> bool" where
  "isAttemptOf i (Succeeded j) = (i = j)"
| "isAttemptOf i (Failed j err) = (i = j)"
| "isAttemptOf i (ErrorExecuting j e) = (i = j)"
| "isAttemptOf i l = False"

definition attemptsOf :: "string \<Rightarrow> console_line list \<Rightarrow> nat" where
  "attemptsOf i ls = length (filter (isAttemptOf i) ls)"

definition successesOf :: "string \<Rightarrow> console_line list \<Rightarrow> nat" where
  "successesOf i ls = length (filter (\<lambda>l. l = Succeeded i) ls)"



text \<open>The body a request carries: \<open>api.delete\<close> gets none.\<close>

definition sentBody :: "Method \<Rightarrow> 'b \<Rightarrow> 'b option" where
  "sentBody m b = (case m of DELETE \<Rightarrow> None | _ \<Rightarrow> Some b)"

text \<open>The request a queued operation is replayed as, and the answer to its \<open>n\<close>-th sending.\<close>

definition requestOf :: "'b PendingOperation \<Rightarrow> Method \<times> string \<times> 'b option" where
  "requestOf p = (opMethod p, endpoint p, sentBody (opMethod p) (body p))"

definition answer :: "('b, 'd) env \<Rightarrow> nat \<Rightarrow> 'b PendingOperation \<Rightarrow> thrown + 'd ApiResponse" where
  "answer env n p = transport env n (opMethod p) (endpoint p) (sentBody (opMethod p) (body p))"

text \<open>An attempt fails when the transport throws or the status is outside [200,300).\<close>

definition failedAttempt :: "thrown + 'd ApiResponse \<Rightarrow> bool" where
  "failedAttempt outcome = (case outcome of Inl e \<Rightarrow> True | Inr result \<Rightarrow> \<not> isSuccessStatus result)"

text \<open>
  An operation waits for its backoff in a pass that starts at \<open>now\<close>; a pass attempts the
  operations that are below the retry ceiling and do not wait.
\<close>

definition waiting :: "int \<Rightarrow> 'b PendingOperation \<Rightarrow> bool" where
  "waiting now p =
     (retryCount p > 0 \<and> now - timestamp p < RETRY_BACKOFF_MS * 2 ^ retryCount p)"

definition attempted :: "int \<Rightarrow> 'b PendingOperation \<Rightarrow> bool" where
  "attempted now p = (retryCount p < MAX_RETRY_ATTEMPTS \<and> \<not> waiting now p)"





section \<open>What the programs compute\<close>

text \<open>
  Each program is first brought into a closed form: the result it returns and the state it
  leaves, without the combinators. The claims are proved from these forms.
\<close>

lemmas prog_defs = returnE_def throwE_def bindE_def tryCatch_def tryFinally_def getW_def
  modifyW_def consoleLog_def

lemma savePendingOperations_eq:
  "savePendingOperations env w =
     (Inr (),
      case setItem env (length (setItemCalls w)) (pendingOperations w) of
        None \<Rightarrow> w\<lparr>setItemCalls := setItemCalls w @ [pendingOperations w],
                  storage := Some (pendingOperations w)\<rparr>
      | Some e \<Rightarrow> w\<lparr>setItemCalls := setItemCalls w @ [pendingOperations w],
                   console := console w @ [FailedToSave e]\<rparr>)"
  by (simp add: savePendingOperations_def AsyncStorage_setItem_def prog_defs split: option.splits)

definition afterEnqueue ::
  "('b, 'd) env \<Rightarrow> 'b PendingOperation \<Rightarrow> console_line \<Rightarrow> ('b, 'd) world \<Rightarrow> ('b, 'd) world" where
  "afterEnqueue env p l w =
     (let q = pendingOperations w @ [p] in
      case setItem env (length (setItemCalls w)) q of
        None \<Rightarrow> w\<lparr>pendingOperations := q, setItemCalls := setItemCalls w @ [q],
                  storage := Some q, console := console w @ [l]\<rparr>
      | Some e \<Rightarrow> w\<lparr>pendingOperations := q, setItemCalls := setItemCalls w @ [q],
                   console := console w @ [FailedToSave e, l]\<rparr>)"

lemma enqueue_eq: "enqueue env p l w = (Inr (), afterEnqueue env p l w)"
  by (simp add: enqueue_def afterEnqueue_def savePendingOperations_eq prog_defs Let_def
      split: option.splits)

lemma api_call_sent:
  "api_call env m e b w =
     (transport env (length (requests w)) m e (sentBody m b),
      w\<lparr>requests := requests w @ [(m, e, sentBody m b)]\<rparr>)"
  by (cases m) (simp_all add: api_request_def sentBody_def)

text \<open>What one iteration does, as a function of the number of requests made so far.\<close>

definition stepSpec ::
  "('b, 'd) env \<Rightarrow> int \<Rightarrow> nat \<Rightarrow> 'b PendingOperation \<Rightarrow> string list \<Rightarrow> string list \<Rightarrow>
   ('b PendingOperation \<times> string list \<times> string list) \<times>
   (Method \<times> string \<times> 'b option) list \<times> console_line list" where
  "stepSpec env now n p s f =
     (if retryCount p \<ge> MAX_RETRY_ATTEMPTS then
        ((p, s, f @ [opId p]), [], [ExceededMaxRetries (opId p)])
      else if waiting now p then
        ((p, s, f), [], [WaitingForBackoff (opId p) (RETRY_BACKOFF_MS * 2 ^ retryCount p)])
      else
        (case answer env n p of
           Inr r \<Rightarrow>
             if isSuccessStatus r then
               ((p, s @ [opId p], f), [requestOf p],
                [Executing (opMethod p) (endpoint p), Succeeded (opId p)])
             else
               (markRetry now p s f, [requestOf p],
                [Executing (opMethod p) (endpoint p), Failed (opId p) (error r)])
         | Inl e \<Rightarrow>
             (markRetry now p s f, [requestOf p],
              [Executing (opMethod p) (endpoint p), ErrorExecuting (opId p) e])))"

lemma processOperation_eq:
  "processOperation env now p s f w =
     (case stepSpec env now (length (requests w)) p s f of
        (r, rq, ls) \<Rightarrow> (Inr r, w\<lparr>requests := requests w @ rq, console := console w @ ls\<rparr>))"
  by (simp add: processOperation_def stepSpec_def waiting_def api_call_sent requestOf_def
      answer_def prog_defs Let_def split: sum.splits)

fun passSpec ::
  "('b, 'd) env \<Rightarrow> int \<Rightarrow> nat \<Rightarrow> 'b PendingOperation list \<Rightarrow> string list \<Rightarrow> string list \<Rightarrow>
   ('b PendingOperation list \<times> string list \<times> string list) \<times>
   (Method \<times> string \<times> 'b option) list \<times> console_line list" where
  "passSpec env now n [] s f = (([], s, f), [], [])"
| "passSpec env now n (p # ps) s f =
     (case stepSpec env now n p s f of
        ((p', s1, f1), rq1, ls1) \<Rightarrow>
          (case passSpec env now (n + length rq1) ps s1 f1 of
             ((ps', s2, f2), rq2, ls2) \<Rightarrow> ((p' # ps', s2, f2), rq1 @ rq2, ls1 @ ls2)))"

lemma processOperations_eq:
  "processOperations env now ps s f w =
     (case passSpec env now (length (requests w)) ps s f of
        (r, rq, ls) \<Rightarrow> (Inr r, w\<lparr>requests := requests w @ rq, console := console w @ ls\<rparr>))"
proof (induction ps arbitrary: s f w)
  case Nil
  show ?case by (simp add: returnE_def)
next
  case (Cons p ps)
  show ?case
    by (simp add: processOperation_eq Cons.IH bindE_def returnE_def split: prod.splits)
qed


definition afterSave :: "('b, 'd) env \<Rightarrow> ('b, 'd) world \<Rightarrow> ('b, 'd) world" where
  "afterSave env w =
     (case setItem env (length (setItemCalls w)) (pendingOperations w) of
        None \<Rightarrow> w\<lparr>setItemCalls := setItemCalls w @ [pendingOperations w],
                  storage := Some (pendingOperations w)\<rparr>
      | Some e \<Rightarrow> w\<lparr>setItemCalls := setItemCalls w @ [pendingOperations w],
                   console := console w @ [FailedToSave e]\<rparr>)"

lemma savePendingOperations_afterSave: "savePendingOperations env w = (Inr (), afterSave env w)"
  by (simp add: savePendingOperations_eq afterSave_def)

definition survivors ::
  "'b PendingOperation list \<Rightarrow> string list \<Rightarrow> string list \<Rightarrow> 'b PendingOperation list" where
  "survivors ps s f = filter (\<lambda>op. opId op \<notin> set s \<and> opId op \<notin> set f) ps"

definition afterPass :: "('b, 'd) env \<Rightarrow> int \<Rightarrow> ('b, 'd) world \<Rightarrow> ('b, 'd) world" where
  "afterPass env now w =
     (case passSpec env now (length (requests w)) (sortOps (pendingOperations w)) [] [] of
        ((ps, s, f), rq, ls) \<Rightarrow>
          (let w1 = afterSave env
                 (w\<lparr>pendingOperations := survivors ps s f, syncInProgress := True,
                    lastSyncAttempt := now, requests := requests w @ rq,
                    console := console w @ StartingSync (length (pendingOperations w)) # ls\<rparr>)
           in w1\<lparr>syncInProgress := False,
                 console := console w1 @
                   [SyncCompleted (length s) (length f) (length (survivors ps s f))]\<rparr>))"

lemma pendingOperations_afterSave [simp]:
  "pendingOperations (afterSave env w) = pendingOperations w"
  by (simp add: afterSave_def split: option.splits)

lemma drain_eq:
  "drain env now w =
     (case passSpec env now (length (requests w)) (sortOps (pendingOperations w)) [] [] of
        ((ps, s, f), rq, ls) \<Rightarrow>
          (let w1 = afterSave env
                 (w\<lparr>pendingOperations := survivors ps s f, requests := requests w @ rq,
                    console := console w @ StartingSync (length (pendingOperations w)) # ls\<rparr>)
           in (Inr (), w1\<lparr>console := console w1 @
                   [SyncCompleted (length s) (length f) (length (survivors ps s f))]\<rparr>)))"
  by (simp add: drain_def processOperations_eq savePendingOperations_eq afterSave_def
      survivors_def prog_defs Let_def split: prod.splits option.splits)

lemma syncPendingOperations_eq:
  "syncPendingOperations env now w =
     (Inr (),
      if syncInProgress w then w\<lparr>console := console w @ [SyncAlreadyInProgress]\<rparr>
      else if \<not> isOnline w then w\<lparr>console := console w @ [CannotSyncOffline]\<rparr>
      else if now - lastSyncAttempt w < 5000 then w\<lparr>console := console w @ [SkippingSyncTooSoon]\<rparr>
      else afterPass env now w)"
  by (simp add: syncPendingOperations_def drain_eq afterPass_def afterSave_def prog_defs Let_def
      split: prod.splits option.splits)

lemma manualSync_eq:
  "manualSync env now w =
     (if \<not> isOnline w then (Inr False, w\<lparr>console := console w @ [ManualCannotSyncOffline]\<rparr>)
      else if syncInProgress w then
        (Inr False, w\<lparr>console := console w @ [ManualSyncAlreadyInProgress]\<rparr>)
      else (Inr True, snd (syncPendingOperations env now w)))"
  by (simp add: manualSync_def syncPendingOperations_eq prog_defs)

definition afterMirror :: "('b, 'd) env \<Rightarrow> string \<Rightarrow> 'd \<Rightarrow> ('b, 'd) world \<Rightarrow> ('b, 'd) world" where
  "afterMirror env k d w =
     (let coll = (if k = ''scheduledWorkouts'' then ''scheduledWorkouts'' else ''calendarEvents'');
          doc = (if k = ''scheduledWorkouts'' then dataId env d else dataEventId env d)
      in if (k = ''scheduledWorkouts'' \<and> dataId env d \<noteq> None) \<or>
            (k = ''calendar'' \<and> dataEventId env d \<noteq> None)
         then (case firestoreSet env (length (firestoreCalls w)) of
                 None \<Rightarrow> w\<lparr>firestoreCalls := firestoreCalls w @ [(coll, the doc, d)]\<rparr>
               | Some e \<Rightarrow> w\<lparr>firestoreCalls := firestoreCalls w @ [(coll, the doc, d)],
                            console := console w @ [ErrorUpdatingMirror e]\<rparr>)
         else w)"

lemma updateLocalMirror_eq: "updateLocalMirror env k d w = (Inr (), afterMirror env k d w)"
  by (auto simp add: updateLocalMirror_def afterMirror_def firestore_set_def prog_defs Let_def
      split: option.splits)

lemma afterMirror_frame:
  "pendingOperations (afterMirror env k d w) = pendingOperations w"
  "storage (afterMirror env k d w) = storage w"
  "setItemCalls (afterMirror env k d w) = setItemCalls w"
  "requests (afterMirror env k d w) = requests w"
  by (simp_all add: afterMirror_def Let_def split: option.splits)

lemma performOperation_offline:
  assumes "\<not> isOnline w" and "optOfflineSupport options \<noteq> Some False"
  shows "performOperation env tId rnd tEnq ep m b options w =
     (Inr \<lparr>success = False, resultData = None, resultError = None, queued = Some True\<rparr>,
      afterEnqueue env
        \<lparr>opId = operationId m ep tId rnd, endpoint = ep, opMethod = m, body = b,
         timestamp = tEnq, retryCount = 0,
         priority = (case optPriority options of None \<Rightarrow> medium | Some p \<Rightarrow> p)\<rparr>
        (QueuedForLater m ep) w)"
proof (cases "optOfflineSupport options")
  case None
  with assms show ?thesis
    by (simp add: performOperation_def enqueue_eq prog_defs Let_def split: option.splits)
next
  case (Some s)
  with assms have "s" by simp
  with Some assms show ?thesis
    by (simp add: performOperation_def enqueue_eq prog_defs Let_def split: option.splits)
qed

lemma performOperation_attempt:
  assumes "isOnline w \<or> optOfflineSupport options = Some False"
  shows "performOperation env tId rnd tEnq ep m b options w =
     (let offlineSupport = (optOfflineSupport options \<noteq> Some False);
          p = \<lparr>opId = operationId m ep tId rnd, endpoint = ep, opMethod = m, body = b,
               timestamp = tEnq, retryCount = 0,
               priority = (case optPriority options of None \<Rightarrow> medium | Some p \<Rightarrow> p)\<rparr>;
          w1 = w\<lparr>requests := requests w @ [(m, ep, sentBody m b)]\<rparr>
      in case transport env (length (requests w)) m ep (sentBody m b) of
           Inr result \<Rightarrow>
             if isSuccessStatus result then
               (Inr \<lparr>success = True, resultData = data result, resultError = None, queued = None\<rparr>,
                case (optSyncTarget options, data result) of
                  (Some target, Some d) \<Rightarrow>
                    if target \<noteq> [] \<and> truthy env d then afterMirror env target d w1 else w1
                | _ \<Rightarrow> w1)
             else
               (Inr \<lparr>success = False, resultData = None,
                     resultError = Some (case error result of None \<Rightarrow> ''Server error''
                        | Some msg \<Rightarrow> if msg = [] then ''Server error'' else msg),
                     queued = None\<rparr>,
                if offlineSupport then afterEnqueue env p (ServerErrorQueued m ep) w1 else w1)
         | Inl err \<Rightarrow>
             (Inr \<lparr>success = False, resultData = None,
                   resultError = Some (case err of ErrorObject msg \<Rightarrow> msg | OtherValue \<Rightarrow> ''Network error''),
                   queued = None\<rparr>,
              if offlineSupport then afterEnqueue env p (NetworkErrorQueued m ep) w1 else w1))"
  using assms
  by (auto simp add: performOperation_def enqueue_eq api_call_sent updateLocalMirror_eq
      prog_defs Let_def split: option.splits sum.splits)


lemma afterEnqueue_frame:
  "pendingOperations (afterEnqueue env p l w) = pendingOperations w @ [p]"
  "setItemCalls (afterEnqueue env p l w) = setItemCalls w @ [pendingOperations w @ [p]]"
  "requests (afterEnqueue env p l w) = requests w"
  "setItem env (length (setItemCalls w)) (pendingOperations w @ [p]) = None \<Longrightarrow>
     storage (afterEnqueue env p l w) = Some (pendingOperations w @ [p])"
  "setItem env (length (setItemCalls w)) (pendingOperations w @ [p]) \<noteq> None \<Longrightarrow>
     storage (afterEnqueue env p l w) = storage w"
  by (auto simp add: afterEnqueue_def Let_def split: option.splits)

lemma afterPass_fields:
  "isOnline (afterPass env now w) = isOnline w"
  "syncInProgress (afterPass env now w) = False"
  "lastSyncAttempt (afterPass env now w) = now"
  "firestoreCalls (afterPass env now w) = firestoreCalls w"
  "setItemCalls (afterPass env now w) = setItemCalls w @ [pendingOperations (afterPass env now w)]"
  by (simp_all add: afterPass_def afterSave_def Let_def split: prod.splits option.splits)

lemma writtenThrough_sync: "writtenThrough w (snd (syncPendingOperations env now w))"
  by (simp add: writtenThrough_def syncPendingOperations_eq afterPass_fields)

lemma writtenThrough_perform:
  "writtenThrough w (snd (performOperation env tId rnd tEnq ep m b options w))"
proof (cases "\<not> isOnline w \<and> optOfflineSupport options \<noteq> Some False")
  case True
  then show ?thesis
    by (simp add: writtenThrough_def performOperation_offline afterEnqueue_frame)
next
  case False
  then have "isOnline w \<or> optOfflineSupport options = Some False" by blast
  then show ?thesis
    by (simp add: writtenThrough_def performOperation_attempt afterEnqueue_frame afterMirror_frame
        Let_def split: sum.splits option.splits)
qed

subsection \<open>The sort\<close>

lemma compareOps_precedes: "compareOps a b \<le> 0 \<longleftrightarrow> precedes a b"
  by (cases "priority a"; cases "priority b") (auto simp add: compareOps_def precedes_def)

lemma precedes_total: "\<not> precedes a b \<Longrightarrow> precedes b a"
  by (cases "priority a"; cases "priority b") (auto simp add: precedes_def)

lemma precedes_trans: "precedes a b \<Longrightarrow> precedes b c \<Longrightarrow> precedes a c"
  by (auto simp add: precedes_def)

lemma mset_insertOp: "mset (insertOp a xs) = add_mset a (mset xs)"
  by (induction xs) simp_all

lemma set_insertOp: "set (insertOp a xs) = insert a (set xs)"
  by (induction xs) auto

lemma sorted_insertOp: "sorted_wrt precedes xs \<Longrightarrow> sorted_wrt precedes (insertOp a xs)"
proof (induction xs)
  case Nil
  show ?case by simp
next
  case (Cons b bs)
  show ?case
  proof (cases "compareOps a b \<le> 0")
    case True
    then have ab: "precedes a b" by (simp add: compareOps_precedes)
    with Cons.prems show ?thesis
      using True by (auto intro: precedes_trans)
  next
    case False
    then have "precedes b a" by (simp add: compareOps_precedes precedes_total)
    with Cons show ?thesis
      using False by (auto simp add: set_insertOp)
  qed
qed

lemma mset_sortOps: "mset (sortOps xs) = mset xs"
  by (induction xs) (simp_all add: sortOps_def mset_insertOp)


lemma sorted_sortOps: "sorted_wrt precedes (sortOps xs)"
  by (induction xs) (simp_all add: sortOps_def sorted_insertOp)

lemma distinct_ids_sortOps: "distinct (map opId (sortOps xs)) = distinct (map opId xs)"
proof -
  have "mset (map opId (sortOps xs)) = mset (map opId xs)"
    by (simp add: mset_sortOps)
  then show ?thesis by (rule mset_eq_imp_distinct_iff)
qed

definition retried :: "int \<Rightarrow> 'b PendingOperation \<Rightarrow> 'b PendingOperation" where
  "retried now p = p\<lparr>retryCount := retryCount p + 1, timestamp := now\<rparr>"

lemma stepSpec_cases:
  assumes "stepSpec env now n p s f = ((p', s1, f1), rq1, ls1)"
  obtains
    (Exceeded) "MAX_RETRY_ATTEMPTS \<le> retryCount p" "p' = p" "s1 = s" "f1 = f @ [opId p]"
      "rq1 = []" "ls1 = [ExceededMaxRetries (opId p)]"
  | (Waiting) "retryCount p < MAX_RETRY_ATTEMPTS" "waiting now p" "p' = p" "s1 = s" "f1 = f"
      "rq1 = []" "ls1 = [WaitingForBackoff (opId p) (RETRY_BACKOFF_MS * 2 ^ retryCount p)]"
  | (Success) "attempted now p" "\<not> failedAttempt (answer env n p)" "p' = p"
      "s1 = s @ [opId p]" "f1 = f" "rq1 = [requestOf p]"
      "ls1 = [Executing (opMethod p) (endpoint p), Succeeded (opId p)]"
  | (Failure) err where "attempted now p" "failedAttempt (answer env n p)" "p' = retried now p"
      "s1 = s" "f1 = (if MAX_RETRY_ATTEMPTS \<le> retryCount p + 1 then f @ [opId p] else f)"
      "rq1 = [requestOf p]"
      "ls1 = [Executing (opMethod p) (endpoint p), Failed (opId p) err]"
  | (Thrown) e where "attempted now p" "failedAttempt (answer env n p)" "p' = retried now p"
      "s1 = s" "f1 = (if MAX_RETRY_ATTEMPTS \<le> retryCount p + 1 then f @ [opId p] else f)"
      "rq1 = [requestOf p]"
      "ls1 = [Executing (opMethod p) (endpoint p), ErrorExecuting (opId p) e]"
  using assms
  by (auto simp add: stepSpec_def attempted_def failedAttempt_def markRetry_def retried_def
      Let_def split: if_splits sum.splits)

lemma passSpec_ConsE:
  assumes "passSpec env now n (p # ps) s f = ((qs, s', f'), rq, ls)"
  obtains p' s1 f1 rq1 ls1 ps' rq2 ls2 where
    "stepSpec env now n p s f = ((p', s1, f1), rq1, ls1)"
    "passSpec env now (n + length rq1) ps s1 f1 = ((ps', s', f'), rq2, ls2)"
    "qs = p' # ps'" "rq = rq1 @ rq2" "ls = ls1 @ ls2"
  using assms by (auto split: prod.splits)

lemma passSpec_requests:
  "passSpec env now n ps s f = ((ps', s', f'), rq, ls) \<Longrightarrow>
     rq = map requestOf (filter (attempted now) ps)"
proof (induction ps arbitrary: n s f ps' s' f' rq ls)
  case Nil
  then show ?case by simp
next
  case (Cons p ps)
  from Cons.prems obtain p' s1 f1 rq1 ls1 qs rq2 ls2 where
    step: "stepSpec env now n p s f = ((p', s1, f1), rq1, ls1)"
    and rest: "passSpec env now (n + length rq1) ps s1 f1 = ((qs, s', f'), rq2, ls2)"
    and eqs: "rq = rq1 @ rq2"
    by (rule passSpec_ConsE)
  have "rq2 = map requestOf (filter (attempted now) ps)"
    using rest by (rule Cons.IH)
  moreover have "rq1 = (if attempted now p then [requestOf p] else [])"
    using step by (cases rule: stepSpec_cases) (simp_all add: attempted_def)
  ultimately show ?case using eqs by simp
qed


lemma requests_afterPass:
  "requests (afterPass env now w) =
     requests w @ map requestOf (filter (attempted now) (sortOps (pendingOperations w)))"
proof -
  obtain ps s f rq ls where
    pass: "passSpec env now (length (requests w)) (sortOps (pendingOperations w)) [] [] =
             ((ps, s, f), rq, ls)"
    by (metis prod_cases3 surj_pair)
  have "rq = map requestOf (filter (attempted now) (sortOps (pendingOperations w)))"
    using pass by (rule passSpec_requests)
  then show ?thesis
    by (simp add: afterPass_def pass afterSave_def Let_def split: option.splits)
qed

text \<open>The equations that evaluate a pass on a concrete queue.\<close>

lemmas pass_eval = syncPendingOperations_eq afterPass_def afterSave_def stepSpec_def waiting_def
  survivors_def sortOps_def compareOps_def requestOf_def answer_def sentBody_def
  isSuccessStatus_def markRetry_def MAX_RETRY_ATTEMPTS_def RETRY_BACKOFF_MS_def Let_def

lemma lowHighMedium_eq:
  "lowHighMedium =
     world0\<lparr>pendingOperations :=
        [\<lparr>opId = ''DELETE_/api/workouts/1/cancel_1001_a5'', endpoint = ''/api/workouts/1/cancel'',
          opMethod = DELETE, body = 5, timestamp = 1001, retryCount = 0, priority = low\<rparr>,
         \<lparr>opId = ''POST_/api/calendar/events_1002_b7'', endpoint = ''/api/calendar/events'',
          opMethod = POST, body = 2, timestamp = 1002, retryCount = 0, priority = high\<rparr>,
         \<lparr>opId = ''PUT_/api/workouts/3_1003_c9'', endpoint = ''/api/workouts/3'',
          opMethod = PUT, body = 3, timestamp = 1003, retryCount = 0, priority = medium\<rparr>],
       storage := Some
        [\<lparr>opId = ''DELETE_/api/workouts/1/cancel_1001_a5'', endpoint = ''/api/workouts/1/cancel'',
          opMethod = DELETE, body = 5, timestamp = 1001, retryCount = 0, priority = low\<rparr>,
         \<lparr>opId = ''POST_/api/calendar/events_1002_b7'', endpoint = ''/api/calendar/events'',
          opMethod = POST, body = 2, timestamp = 1002, retryCount = 0, priority = high\<rparr>,
         \<lparr>opId = ''PUT_/api/workouts/3_1003_c9'', endpoint = ''/api/workouts/3'',
          opMethod = PUT, body = 3, timestamp = 1003, retryCount = 0, priority = medium\<rparr>],
       setItemCalls :=
        [[\<lparr>opId = ''DELETE_/api/workouts/1/cancel_1001_a5'', endpoint = ''/api/workouts/1/cancel'',
          opMethod = DELETE, body = 5, timestamp = 1001, retryCount = 0, priority = low\<rparr>],
         [\<lparr>opId = ''DELETE_/api/workouts/1/cancel_1001_a5'', endpoint = ''/api/workouts/1/cancel'',
          opMethod = DELETE, body = 5, timestamp = 1001, retryCount = 0, priority = low\<rparr>,
         \<lparr>opId = ''POST_/api/calendar/events_1002_b7'', endpoint = ''/api/calendar/events'',
          opMethod = POST, body = 2, timestamp = 1002, retryCount = 0, priority = high\<rparr>],
         [\<lparr>opId = ''DELETE_/api/workouts/1/cancel_1001_a5'', endpoint = ''/api/workouts/1/cancel'',
          opMethod = DELETE, body = 5, timestamp = 1001, retryCount = 0, priority = low\<rparr>,
         \<lparr>opId = ''POST_/api/calendar/events_1002_b7'', endpoint = ''/api/calendar/events'',
          opMethod = POST, body = 2, timestamp = 1002, retryCount = 0, priority = high\<rparr>,
         \<lparr>opId = ''PUT_/api/workouts/3_1003_c9'', endpoint = ''/api/workouts/3'',
          opMethod = PUT, body = 3, timestamp = 1003, retryCount = 0, priority = medium\<rparr>]],
       console :=
        [QueuedForLater DELETE ''/api/workouts/1/cancel'', QueuedForLater POST ''/api/calendar/events'',
         QueuedForLater PUT ''/api/workouts/3'']\<rparr>"
  by (simp add: lowHighMedium_def performOperation_offline afterEnqueue_def world0_def
      noOptions_def envOk_def operationId_def showInt_def Let_def)

lemma lowHighMedium_fields:
  "isOnline lowHighMedium" "\<not> syncInProgress lowHighMedium" "lastSyncAttempt lowHighMedium = 0"
  by (simp_all add: lowHighMedium_eq world0_def)

subsection \<open>One operation through a pass\<close>

lemma attemptsOf_append [simp]: "attemptsOf i (xs @ ys) = attemptsOf i xs + attemptsOf i ys"
  by (simp add: attemptsOf_def)

lemma successesOf_append [simp]: "successesOf i (xs @ ys) = successesOf i xs + successesOf i ys"
  by (simp add: successesOf_def)

lemma attemptsOf_Nil [simp]: "attemptsOf i [] = 0"
  by (simp add: attemptsOf_def)

lemma successesOf_Nil [simp]: "successesOf i [] = 0"
  by (simp add: successesOf_def)



lemma retried_fields [simp]:
  "opId (retried now p) = opId p" "opMethod (retried now p) = opMethod p"
  "endpoint (retried now p) = endpoint p" "body (retried now p) = body p"
  "priority (retried now p) = priority p" "retryCount (retried now p) = retryCount p + 1"
  "timestamp (retried now p) = now"
  by (simp_all add: retried_def)
































subsection \<open>One call, whatever the guards say\<close>







lemma requestOf_retried [simp]: "requestOf (retried now p) = requestOf p"
  by (simp add: requestOf_def)









section \<open>The claims\<close>

subsection \<open>C1: an operation requested while offline is queued\<close>




subsection \<open>C2: the retry ceiling\<close>




subsection \<open>C3: the order of the attempts\<close>

text \<open>
  C3: a sync pass that gets past its guards hands to the transport the requests of the
  queued operations it attempts, in the order priority first (high, medium, low) and
  oldest timestamp first within a priority; for a queue of three fresh operations with
  priorities low, high, medium the transport sees high, medium, low.
\<close>

theorem sync_order:
  assumes "\<not> syncInProgress w" and "isOnline w" and "\<not> now - lastSyncAttempt w < 5000"
  shows "(\<exists>attempts.
            requests (snd (syncPendingOperations env now w)) = requests w @ map requestOf attempts \<and>
            mset attempts = filter_mset (attempted now) (mset (pendingOperations w)) \<and>
            sorted_wrt precedes attempts) \<and>
         (\<forall>a b c. pendingOperations w = [a, b, c] \<and>
            priority a = low \<and> priority b = high \<and> priority c = medium \<and>
            retryCount a = 0 \<and> retryCount b = 0 \<and> retryCount c = 0 \<longrightarrow>
            requests (snd (syncPendingOperations env now w)) =
              requests w @ [requestOf b, requestOf c, requestOf a])"
proof (intro conjI allI impI)
  let ?attempts = "filter (attempted now) (sortOps (pendingOperations w))"
  have "requests (snd (syncPendingOperations env now w)) = requests w @ map requestOf ?attempts"
    using assms by (simp add: syncPendingOperations_eq requests_afterPass)
  moreover have "mset ?attempts = filter_mset (attempted now) (mset (pendingOperations w))"
    by (simp add: mset_sortOps)
  moreover have "sorted_wrt precedes ?attempts"
    by (simp add: sorted_sortOps sorted_wrt_filter)
  ultimately show "\<exists>attempts.
      requests (snd (syncPendingOperations env now w)) = requests w @ map requestOf attempts \<and>
      mset attempts = filter_mset (attempted now) (mset (pendingOperations w)) \<and>
      sorted_wrt precedes attempts"
    by blast
next
  fix a b c
  assume h: "pendingOperations w = [a, b, c] \<and>
            priority a = low \<and> priority b = high \<and> priority c = medium \<and>
            retryCount a = 0 \<and> retryCount b = 0 \<and> retryCount c = 0"
  then have "sortOps (pendingOperations w) = [b, c, a]"
    by (simp add: sortOps_def compareOps_def)
  moreover have "attempted now a" "attempted now b" "attempted now c"
    using h by (simp_all add: attempted_def waiting_def MAX_RETRY_ATTEMPTS_def)
  ultimately show "requests (snd (syncPendingOperations env now w)) =
      requests w @ [requestOf b, requestOf c, requestOf a]"
    using assms by (simp add: syncPendingOperations_eq requests_afterPass)
qed

theorem sync_order_witness:
  "requests (snd (syncPendingOperations envOk 9000 lowHighMedium)) =
     [(POST, ''/api/calendar/events'', Some 2), (PUT, ''/api/workouts/3'', Some 3),
      (DELETE, ''/api/workouts/1/cancel'', None)]"
  using sync_order [of lowHighMedium 9000 envOk]
  by (simp add: lowHighMedium_eq world0_def requestOf_def sentBody_def)

subsection \<open>C4: exponential backoff\<close>




subsection \<open>C5: a failed immediate attempt\<close>

text \<open>
  C5: a call made while online whose immediate attempt throws or returns a status outside
  [200,300) returns \<open>success: false\<close> with an \<open>error\<close> and no \<open>queued\<close> flag. With
  \<open>offlineSupport\<close> true or defaulted it appends one fresh operation with
  \<open>retryCount = 0\<close> and saves the whole queue (the store holds it when the write
  succeeds); with \<open>offlineSupport\<close> false the queue and the store are unchanged.
\<close>

theorem performOperation_online_failure:
  assumes "isOnline w"
    and "failedAttempt (transport env (length (requests w)) m ep (sentBody m b))"
  shows "\<exists>w'. performOperation env tId rnd tEnq ep m b options w =
           (Inr \<lparr>success = False, resultData = None,
                 resultError = Some
                   (case transport env (length (requests w)) m ep (sentBody m b) of
                      Inl (ErrorObject msg) \<Rightarrow> msg
                    | Inl OtherValue \<Rightarrow> ''Network error''
                    | Inr result \<Rightarrow>
                        (case error result of
                           None \<Rightarrow> ''Server error''
                         | Some msg \<Rightarrow> if msg = [] then ''Server error'' else msg)),
                 queued = None\<rparr>, w') \<and>
         requests w' = requests w @ [(m, ep, sentBody m b)] \<and>
         (optOfflineSupport options \<noteq> Some False \<longrightarrow>
            pendingOperations w' = pendingOperations w @
              [\<lparr>opId = operationId m ep tId rnd, endpoint = ep, opMethod = m, body = b,
                timestamp = tEnq, retryCount = 0,
                priority = (case optPriority options of None \<Rightarrow> medium | Some p \<Rightarrow> p)\<rparr>] \<and>
            setItemCalls w' = setItemCalls w @ [pendingOperations w'] \<and>
            (setItem env (length (setItemCalls w)) (pendingOperations w') = None \<longrightarrow>
               storage w' = Some (pendingOperations w'))) \<and>
         (optOfflineSupport options = Some False \<longrightarrow>
            pendingOperations w' = pendingOperations w \<and> setItemCalls w' = setItemCalls w \<and>
            storage w' = storage w)"
  using assms
  by (auto simp add: performOperation_attempt failedAttempt_def afterEnqueue_frame Let_def
      split: sum.splits thrown.splits)

theorem performOperation_online_failure_witness:
  "fst (performOperation envDown 1000 ''k3j'' 1002 ''/api/workouts/9/cancel'' DELETE 0 noOptions
     world0) =
     Inr \<lparr>success = False, resultData = None, resultError = Some ''down'', queued = None\<rparr> \<and>
   pendingOperations (snd (performOperation envDown 1000 ''k3j'' 1002 ''/api/workouts/9/cancel''
     DELETE 0 noOptions world0)) =
     [\<lparr>opId = ''DELETE_/api/workouts/9/cancel_1000_k3j'', endpoint = ''/api/workouts/9/cancel'',
       opMethod = DELETE, body = 0, timestamp = 1002, retryCount = 0, priority = medium\<rparr>] \<and>
   storage (snd (performOperation envDown 1000 ''k3j'' 1002 ''/api/workouts/9/cancel''
     DELETE 0 noOptions world0)) =
     Some [\<lparr>opId = ''DELETE_/api/workouts/9/cancel_1000_k3j'', endpoint = ''/api/workouts/9/cancel'',
       opMethod = DELETE, body = 0, timestamp = 1002, retryCount = 0, priority = medium\<rparr>] \<and>
   pendingOperations (snd (performOperation envDown 1000 ''k3j'' 1002 ''/api/workouts/9/cancel''
     DELETE 0 (noOptions\<lparr>optOfflineSupport := Some False\<rparr>) world0)) = []"
  using performOperation_online_failure [of world0 envDown DELETE "''/api/workouts/9/cancel''" 0
      1000 "''k3j''" 1002 noOptions]
    performOperation_online_failure [of world0 envDown DELETE "''/api/workouts/9/cancel''" 0
      1000 "''k3j''" 1002 "noOptions\<lparr>optOfflineSupport := Some False\<rparr>"]
  by (auto simp add: world0_def noOptions_def envDown_def envOk_def operationId_def showInt_def
      failedAttempt_def isSuccessStatus_def sentBody_def)

subsection \<open>C6: nothing is thrown to the caller\<close>

text \<open>
  C6: for every input, \<open>performOperation\<close> and \<open>syncPendingOperations\<close> return normally:
  whatever the transport, the store and the mirror throw is caught inside, and
  \<open>performOperation\<close> returns a value of the shape \<open>{success, data?, error?, queued?}\<close>.
\<close>

theorem never_throws:
  "(\<exists>r w'. performOperation env tId rnd tEnq ep m b options w = (Inr r, w')) \<and>
   (\<exists>w'. syncPendingOperations env now w = (Inr (), w'))"
proof
  show "\<exists>r w'. performOperation env tId rnd tEnq ep m b options w = (Inr r, w')"
  proof (cases "\<not> isOnline w \<and> optOfflineSupport options \<noteq> Some False")
    case True
    then show ?thesis by (simp add: performOperation_offline)
  next
    case False
    then have "isOnline w \<or> optOfflineSupport options = Some False" by blast
    then show ?thesis
      by (simp add: performOperation_attempt Let_def split: sum.splits)
  qed
  show "\<exists>w'. syncPendingOperations env now w = (Inr (), w')"
    by (simp add: syncPendingOperations_eq)
qed

theorem never_throws_witness:
  "fst (performOperation envBroken 1000 ''k3j'' 1002 ''/api/workouts/schedule'' POST 4 noOptions
     world0) =
     Inr \<lparr>success = False, resultData = None, resultError = Some ''Network error'',
          queued = None\<rparr> \<and>
   fst (syncPendingOperations envBroken 9000 lowHighMedium) = Inr ()"
  using never_throws [of envBroken 1000 "''k3j''" 1002 "''/api/workouts/schedule''" POST 4
      noOptions world0 9000]
    never_throws [of envBroken 1000 "''k3j''" 1002 "''/api/workouts/schedule''" POST 4
      noOptions lowHighMedium 9000]
  by (auto simp add: performOperation_attempt world0_def envBroken_def envOk_def Let_def)

subsection \<open>C7: the queue is written through\<close>

text \<open>
  C7: every public operation that changes the queue in memory (\<open>performOperation\<close>,
  \<open>syncPendingOperations\<close>, \<open>manualSync\<close>) has, when it completes, issued a save of
  the whole queue as it then stands, as the last thing it did to the store; an operation
  that issued no save has left the queue unchanged.
\<close>

theorem write_through:
  "writtenThrough w (snd (performOperation env tId rnd tEnq ep m b options w)) \<and>
   writtenThrough w (snd (syncPendingOperations env now w)) \<and>
   writtenThrough w (snd (manualSync env now w))"
proof -
  have "writtenThrough w (snd (manualSync env now w))"
    using writtenThrough_sync [of w env now]
    by (simp add: manualSync_eq writtenThrough_def)
  then show ?thesis
    by (simp add: writtenThrough_perform writtenThrough_sync)
qed

theorem write_through_witness:
  "writtenThrough lowHighMedium (snd (syncPendingOperations envOk 9000 lowHighMedium))"
  using write_through [of lowHighMedium envOk 0 "[]" 0 "[]" POST 0 noOptions 9000]
  by blast

subsection \<open>C8: the guards of syncPendingOperations\<close>

text \<open>
  C8 says that of two calls less than 5000 ms apart the second never touches the queue. The rate limit counts from the last call that got past the guards
  (\<open>lastSyncAttempt\<close> is set after them), so when the first call of the pair was itself
  turned away, the second may run the drain: below the last drain was at 10000, the call
  at 14000 is turned away and the call at 16000 sends the queued operation.
\<close>

theorem sync_rate_limit_counterexample:
  "(16000::int) - 14000 < 5000 \<and>
   pendingOperations (snd (syncPendingOperations envOk 14000
      (world0\<lparr>lastSyncAttempt := 10000, pendingOperations := [opA]\<rparr>))) = [opA] \<and>
   pendingOperations (snd (syncPendingOperations envOk 16000
      (snd (syncPendingOperations envOk 14000
         (world0\<lparr>lastSyncAttempt := 10000, pendingOperations := [opA]\<rparr>))))) = [] \<and>
   requests (snd (syncPendingOperations envOk 16000
      (snd (syncPendingOperations envOk 14000
         (world0\<lparr>lastSyncAttempt := 10000, pendingOperations := [opA]\<rparr>))))) =
     [(POST, ''/api/workouts/schedule'', Some 4)]"
  by (simp add: pass_eval world0_def envOk_def opA_def)

text \<open>
  C8, as amended: a call made while a sync is in progress, while offline, or less than
  5000 ms after the last call that got past the guards returns having done nothing but
  log, and the three guards are checked in that order. Of two calls less than 5000 ms
  apart at most one runs the drain: when the first one runs it, the second returns
  without reading or changing the queue.
\<close>

theorem sync_guards:
  "(syncInProgress w \<longrightarrow>
      syncPendingOperations env now w = (Inr (), w\<lparr>console := console w @ [SyncAlreadyInProgress]\<rparr>)) \<and>
   (\<not> syncInProgress w \<and> \<not> isOnline w \<longrightarrow>
      syncPendingOperations env now w = (Inr (), w\<lparr>console := console w @ [CannotSyncOffline]\<rparr>)) \<and>
   (\<not> syncInProgress w \<and> isOnline w \<and> now - lastSyncAttempt w < 5000 \<longrightarrow>
      syncPendingOperations env now w = (Inr (), w\<lparr>console := console w @ [SkippingSyncTooSoon]\<rparr>)) \<and>
   (t2 - t1 < 5000 \<and> \<not> syncInProgress w \<and> isOnline w \<and> \<not> t1 - lastSyncAttempt w < 5000 \<longrightarrow>
      syncPendingOperations env t2 (snd (syncPendingOperations env t1 w)) =
        (Inr (), (snd (syncPendingOperations env t1 w))
           \<lparr>console := console (snd (syncPendingOperations env t1 w)) @ [SkippingSyncTooSoon]\<rparr>)) \<and>
   (t2 - t1 < 5000 \<longrightarrow>
      (\<exists>l. snd (syncPendingOperations env t1 w) = w\<lparr>console := console w @ [l]\<rparr>) \<or>
      (\<exists>l. snd (syncPendingOperations env t2 (snd (syncPendingOperations env t1 w))) =
         (snd (syncPendingOperations env t1 w))
           \<lparr>console := console (snd (syncPendingOperations env t1 w)) @ [l]\<rparr>))"
proof -
  let ?w1 = "snd (syncPendingOperations env t1 w)"
  have g1: "syncInProgress w \<longrightarrow>
      syncPendingOperations env now w = (Inr (), w\<lparr>console := console w @ [SyncAlreadyInProgress]\<rparr>)"
    by (simp add: syncPendingOperations_eq)
  have g2: "\<not> syncInProgress w \<and> \<not> isOnline w \<longrightarrow>
      syncPendingOperations env now w = (Inr (), w\<lparr>console := console w @ [CannotSyncOffline]\<rparr>)"
    by (simp add: syncPendingOperations_eq)
  have g3: "\<not> syncInProgress w \<and> isOnline w \<and> now - lastSyncAttempt w < 5000 \<longrightarrow>
      syncPendingOperations env now w = (Inr (), w\<lparr>console := console w @ [SkippingSyncTooSoon]\<rparr>)"
    by (simp add: syncPendingOperations_eq)
  have second: "syncPendingOperations env t2 ?w1 =
      (Inr (), ?w1\<lparr>console := console ?w1 @ [SkippingSyncTooSoon]\<rparr>)"
    if "t2 - t1 < 5000" and "\<not> syncInProgress w" and "isOnline w"
      and "\<not> t1 - lastSyncAttempt w < 5000"
  proof -
    from that have "?w1 = afterPass env t1 w"
      by (simp add: syncPendingOperations_eq)
    with that show ?thesis
      by (simp add: syncPendingOperations_eq [of env t2] afterPass_fields)
  qed
  have once: "(\<exists>l. ?w1 = w\<lparr>console := console w @ [l]\<rparr>) \<or>
      (\<exists>l. snd (syncPendingOperations env t2 ?w1) = ?w1\<lparr>console := console ?w1 @ [l]\<rparr>)"
    if close: "t2 - t1 < 5000"
  proof (cases "\<not> syncInProgress w \<and> isOnline w \<and> \<not> t1 - lastSyncAttempt w < 5000")
    case True
    with close have "snd (syncPendingOperations env t2 ?w1) =
        ?w1\<lparr>console := console ?w1 @ [SkippingSyncTooSoon]\<rparr>"
      by (simp add: second)
    then show ?thesis by blast
  next
    case False
    then have "\<exists>l. ?w1 = w\<lparr>console := console w @ [l]\<rparr>"
      by (auto simp add: syncPendingOperations_eq)
    then show ?thesis by blast
  qed
  from g1 g2 g3 second once show ?thesis by blast
qed

theorem sync_guards_witness:
  "snd (syncPendingOperations envOk 9000 (world0\<lparr>syncInProgress := True, isOnline := False\<rparr>)) =
     world0\<lparr>syncInProgress := True, isOnline := False, console := [SyncAlreadyInProgress]\<rparr> \<and>
   snd (syncPendingOperations envOk 9000 (world0\<lparr>isOnline := False\<rparr>)) =
     world0\<lparr>isOnline := False, console := [CannotSyncOffline]\<rparr> \<and>
   snd (syncPendingOperations envOk 4000 world0) = world0\<lparr>console := [SkippingSyncTooSoon]\<rparr> \<and>
   snd (syncPendingOperations envOk 12000 (snd (syncPendingOperations envOk 9000 lowHighMedium))) =
     (snd (syncPendingOperations envOk 9000 lowHighMedium))
       \<lparr>console := console (snd (syncPendingOperations envOk 9000 lowHighMedium)) @
          [SkippingSyncTooSoon]\<rparr>"
  using sync_guards [of "world0\<lparr>syncInProgress := True, isOnline := False\<rparr>" envOk 9000 0 0]
    sync_guards [of "world0\<lparr>isOnline := False\<rparr>" envOk 9000 0 0]
    sync_guards [of world0 envOk 4000 0 0]
    sync_guards [of lowHighMedium envOk 9000 12000 9000]
  by (simp add: lowHighMedium_fields world0_def)

subsection \<open>C9: an immediate success\<close>

text \<open>
  C9: a call made while online for which the transport returns a status in [200,300)
  returns \<open>{success: true, data}\<close> and leaves the queue and the store unchanged; the
  returned value is the same whatever the writes to the local mirror do.
\<close>

theorem performOperation_online_success:
  assumes "isOnline w"
    and "transport env (length (requests w)) m ep (sentBody m b) = Inr result"
    and "200 \<le> status result" and "status result < 300"
  shows "(\<exists>w'. performOperation env tId rnd tEnq ep m b options w =
            (Inr \<lparr>success = True, resultData = data result, resultError = None, queued = None\<rparr>, w') \<and>
          pendingOperations w' = pendingOperations w \<and> setItemCalls w' = setItemCalls w \<and>
          storage w' = storage w) \<and>
         (\<forall>fs. fst (performOperation (env\<lparr>firestoreSet := fs\<rparr>) tId rnd tEnq ep m b options w) =
            fst (performOperation env tId rnd tEnq ep m b options w))"
  using assms
  by (auto simp add: performOperation_attempt isSuccessStatus_def afterMirror_frame Let_def
      split: option.splits)

theorem performOperation_online_success_witness:
  "fst (performOperation envOk 1000 ''k3j'' 1002 ''/api/workouts/schedule'' POST 4
     (noOptions\<lparr>optSyncTarget := Some ''scheduledWorkouts''\<rparr>) world0) =
     Inr \<lparr>success = True, resultData = Some 7, resultError = None, queued = None\<rparr> \<and>
   pendingOperations (snd (performOperation envOk 1000 ''k3j'' 1002 ''/api/workouts/schedule''
     POST 4 (noOptions\<lparr>optSyncTarget := Some ''scheduledWorkouts''\<rparr>) world0)) = [] \<and>
   fst (performOperation (envOk\<lparr>firestoreSet := (\<lambda>n. Some OtherValue)\<rparr>) 1000 ''k3j'' 1002
     ''/api/workouts/schedule'' POST 4
     (noOptions\<lparr>optSyncTarget := Some ''scheduledWorkouts''\<rparr>) world0) =
     Inr \<lparr>success = True, resultData = Some 7, resultError = None, queued = None\<rparr>"
  using performOperation_online_success [of world0 envOk POST "''/api/workouts/schedule''" 4
      "\<lparr>status = 200, data = Some 7, error = None\<rparr>" 1000 "''k3j''" 1002
      "noOptions\<lparr>optSyncTarget := Some ''scheduledWorkouts''\<rparr>"]
  by (auto simp add: world0_def envOk_def)

subsection \<open>C10: what manualSync returns\<close>

text \<open>
  C10: \<open>manualSync\<close> returns false exactly when the device is offline or a sync is in
  progress. In every other state it returns true, also when the inner
  \<open>syncPendingOperations\<close> is the rate-limited no-op: then nothing but the console line
  of that guard has changed.
\<close>

theorem manualSync_result:
  "fst (manualSync env now w) = Inr (isOnline w \<and> \<not> syncInProgress w) \<and>
   (isOnline w \<and> \<not> syncInProgress w \<and> now - lastSyncAttempt w < 5000 \<longrightarrow>
      manualSync env now w = (Inr True, w\<lparr>console := console w @ [SkippingSyncTooSoon]\<rparr>))"
  by (simp add: manualSync_eq syncPendingOperations_eq)

theorem manualSync_result_witness:
  "manualSync envOk 3000 world0 = (Inr True, world0\<lparr>console := [SkippingSyncTooSoon]\<rparr>) \<and>
   fst (manualSync envOk 3000 (world0\<lparr>isOnline := False\<rparr>)) = Inr False \<and>
   fst (manualSync envOk 3000 (world0\<lparr>syncInProgress := True\<rparr>)) = Inr False"
  using manualSync_result [of envOk 3000 world0]
    manualSync_result [of envOk 3000 "world0\<lparr>isOnline := False\<rparr>"]
    manualSync_result [of envOk 3000 "world0\<lparr>syncInProgress := True\<rparr>"]
  by (simp add: world0_def)


end
